theory Spec2Isabelle
  imports Main "HOL-Library.Word"
begin

section \<open>The watchdog of gonetmon: time-windowed hit cache and alert state\<close>

text \<open>
  This theory embeds the watchdog of \<^verbatim>\<open>params.go\<close>: the structs \<^verbatim>\<open>hitCache\<close> and
  \<^verbatim>\<open>Watchdog\<close>, the functions \<^verbatim>\<open>Hits\<close>, \<^verbatim>\<open>buildAlertMsg\<close>, \<^verbatim>\<open>verify\<close>, \<^verbatim>\<open>evict\<close> and
  \<^verbatim>\<open>NewWatchdog\<close> with the command loop of its goroutine.

  Conventions of the embedding.
  \<^item> A \<^verbatim>\<open>time.Time\<close> is the instant it denotes, an integer count of nanoseconds since the
    zero value \<^verbatim>\<open>time.Time{}\<close>. Locations and monotonic clock readings are not modelled.
  \<^item> A \<^verbatim>\<open>time.Duration\<close> is an \<^verbatim>\<open>int64\<close>, a 64-bit word read with \<open>sint\<close>.
  \<^item> \<^verbatim>\<open>uint\<close> and \<^verbatim>\<open>int\<close> are the 64-bit types of a 64-bit platform.
  \<^item> The \<^verbatim>\<open>container/list\<close> list is the HOL list of its values, front first.
  \<^item> The send-only channel \<^verbatim>\<open>alertChan\<close> is the sequence of messages sent on it so far,
    oldest first; a send appends. Whether a send has to wait for a receiver is not modelled.
  \<^item> The receive cases of the \<^verbatim>\<open>select\<close> statement are events handed to the loop body, and
    \<^verbatim>\<open>time.Now()\<close> is an argument \<open>now\<close> of the function that reads the clock.
\<close>

subsection \<open>Time\<close>

type_synonym time = int
type_synonym duration = "64 word"

definition zero_time :: time where
  "zero_time = 0"

definition minDuration :: int where
  "minDuration = - (2 ^ 63)"

definition maxDuration :: int where
  "maxDuration = 2 ^ 63 - 1"

text \<open>
  \<^verbatim>\<open>Time.Sub\<close> of the Go library: the difference \<open>t - u\<close>, and the smallest or largest
  duration where the difference does not fit an \<^verbatim>\<open>int64\<close>.
\<close>

definition Sub :: "time \<Rightarrow> time \<Rightarrow> duration" where
  "Sub t u =
     (let d = t - u
      in if d < minDuration then word_of_int minDuration
         else if maxDuration < d then word_of_int maxDuration
         else word_of_int d)"

subsection \<open>Data\<close>

record hitCache =
  bufSize :: "64 word"
  list' :: "time list"
  size' :: "64 word"

record alertMsg =
  recovery :: bool
  body :: string
  timestamp :: time

record Watchdog =
  cache :: hitCache
  timeFrame :: duration
  tick :: duration
  threshold :: "64 word"
  alertChan :: "alertMsg list"
  alert :: bool

text \<open>
  The fields of \<^verbatim>\<open>Parameters\<close> that \<^verbatim>\<open>NewWatchdog\<close> reads, with the types of the fields
  they are assigned to.
\<close>

record Parameters =
  WatchdogBufSize :: "64 word"
  AlertSpan :: duration
  WatchdogTick :: duration
  AlertThreshold :: "64 word"

text \<open>
  The arguments a call of \<^verbatim>\<open>fmt.Sprintf\<close> is given, and the parts of the message text that
  lie outside \<^verbatim>\<open>params.go\<close>: the three constants \<^verbatim>\<open>defAlertFormat\<close>,
  \<^verbatim>\<open>defRecoveryFormat\<close> and \<^verbatim>\<open>defTimeLayout\<close>, and the library functions
  \<^verbatim>\<open>fmt.Sprintf\<close> and \<^verbatim>\<open>Time.Format\<close>. They are parameters of the model.
\<close>

datatype fmt_arg = IntArg int | StringArg string

record text_env =
  defAlertFormat :: string
  defRecoveryFormat :: string
  defTimeLayout :: string
  Sprintf :: "string \<Rightarrow> fmt_arg list \<Rightarrow> string"
  Format :: "time \<Rightarrow> string \<Rightarrow> string"

subsection \<open>Operations\<close>

text \<open>\<^verbatim>\<open>Hits\<close>: the conversion \<^verbatim>\<open>int(w.cache.size)\<close> keeps the 64 bits and reads them signed.\<close>

definition Hits :: "Watchdog \<Rightarrow> int" where
  "Hits w = sint (size' (cache w))"

definition buildAlertMsg :: "text_env \<Rightarrow> Watchdog \<Rightarrow> bool \<Rightarrow> time \<Rightarrow> alertMsg" where
  "buildAlertMsg env w rec t =
     (let message =
        (if rec then Sprintf env (defRecoveryFormat env) [StringArg (Format env t (defTimeLayout env))]
         else Sprintf env (defAlertFormat env)
                [IntArg (Hits w), StringArg (Format env t (defTimeLayout env))])
      in \<lparr>recovery = rec, body = message, timestamp = zero_time\<rparr>)"

text \<open>A send on \<^verbatim>\<open>w.alertChan\<close>.\<close>

definition send :: "alertMsg \<Rightarrow> Watchdog \<Rightarrow> Watchdog" where
  "send m w = w\<lparr>alertChan := alertChan w @ [m]\<rparr>"

text \<open>
  \<^verbatim>\<open>verify\<close>. The empty test reads the length of the list, the threshold test reads the
  counter \<^verbatim>\<open>size\<close>; the flag is assigned before the message is built and sent.
\<close>

definition verify :: "text_env \<Rightarrow> time \<Rightarrow> Watchdog \<Rightarrow> Watchdog" where
  "verify env now w =
     (if int (length (list' (cache w))) \<le> 0 then
        (if alert w then
           (let w1 = w\<lparr>alert := False\<rparr> in send (buildAlertMsg env w1 True now) w1)
         else w)
      else if threshold w \<le> size' (cache w) then
        (if \<not> alert w then
           (let w1 = w\<lparr>alert := True\<rparr> in send (buildAlertMsg env w1 False now) w1)
         else w)
      else
        (if alert w then
           (let w1 = w\<lparr>alert := False\<rparr> in send (buildAlertMsg env w1 True now) w1)
         else w))"

text \<open>
  The test of the eviction loop, \<^verbatim>\<open>now.Sub(e.Value.(time.Time)) > w.timeFrame\<close>, a signed
  comparison of two durations.
\<close>

definition expired :: "time \<Rightarrow> duration \<Rightarrow> time \<Rightarrow> bool" where
  "expired now window e = (sint window < sint (Sub now e))"

text \<open>
  \<^verbatim>\<open>evict\<close>: the loop removes the front element and decrements \<^verbatim>\<open>size\<close> as long as the
  list is not empty and the front element is older than the window.
\<close>

function evict :: "time \<Rightarrow> Watchdog \<Rightarrow> Watchdog" where
  "evict now w =
     (case list' (cache w) of
        [] \<Rightarrow> w
      | e # rest \<Rightarrow>
          if expired now (timeFrame w) e
          then evict now (w\<lparr>cache := (cache w)\<lparr>list' := rest, size' := size' (cache w) - 1\<rparr>\<rparr>)
          else w)"
  by pat_completeness auto
termination
  by (relation "measure (\<lambda>(now, w). length (list' (cache w)))") auto

text \<open>
  The struct literal that \<^verbatim>\<open>NewWatchdog\<close> assigns to its variable \<^verbatim>\<open>dog\<close>, apart from the
  push channel: the watchdog that \<^verbatim>\<open>NewWatchdog\<close> returns and that its goroutine starts
  from. \<open>c\<close> is the alert channel the caller passes, with whatever has been sent on it
  before.
\<close>

definition initialDog :: "Parameters \<Rightarrow> alertMsg list \<Rightarrow> Watchdog" where
  "initialDog parameters c =
     \<lparr>cache = \<lparr>bufSize = WatchdogBufSize parameters, list' = [], size' = 0\<rparr>,
      timeFrame = AlertSpan parameters,
      tick = WatchdogTick parameters,
      threshold = AlertThreshold parameters,
      alertChan = c,
      alert = False\<rparr>"

text \<open>
  \<^verbatim>\<open>make(chan time.Time, n)\<close> for a size \<open>n\<close> of type \<^verbatim>\<open>uint\<close>: the size is converted to
  \<^verbatim>\<open>int\<close>, and the run-time system panics for a size that is negative then or larger
  than the capacity it can allocate. That capacity, \<open>chanCap\<close>, is a constant of the
  platform and a parameter of the model. Running out of memory is not modelled.
\<close>

definition makeChanPanics :: "nat \<Rightarrow> 64 word \<Rightarrow> bool" where
  "makeChanPanics chanCap n = (sint n < 0 \<or> chanCap < unat n)"

text \<open>
  \<^verbatim>\<open>NewWatchdog\<close>. The first field of the struct literal makes the push channel, which
  can panic in the caller; nothing else in the function can fail, and the function has no
  error result. The result is \<open>Inl\<close> with the message of the panic, or \<open>Inr\<close> with the
  watchdog. The goroutine that the function starts is \<open>goroutine\<close> below.
\<close>

definition NewWatchdog :: "nat \<Rightarrow> Parameters \<Rightarrow> alertMsg list \<Rightarrow> string + Watchdog" where
  "NewWatchdog chanCap parameters c =
     (if makeChanPanics chanCap (WatchdogBufSize parameters)
      then Inl ''makechan: size out of range''
      else Inr (initialDog parameters c))"

text \<open>
  The command loop of the goroutine. An event is the case of the \<^verbatim>\<open>select\<close> statement
  that fires: a receive from \<^verbatim>\<open>syn.syncChan\<close>, a time \<open>t\<close> received from \<^verbatim>\<open>ticker.C\<close>, or a
  time \<open>p\<close> received from \<^verbatim>\<open>dog.cache.push\<close>.
\<close>

datatype event = SyncSignal | TickerTime time | PushRequest time

datatype flow = Break Watchdog | Continue Watchdog

text \<open>The two statements of the push case before its call of \<^verbatim>\<open>verify\<close>.\<close>

definition pushBack :: "time \<Rightarrow> Watchdog \<Rightarrow> Watchdog" where
  "pushBack p w =
     (let w1 = w\<lparr>cache := (cache w)\<lparr>list' := list' (cache w) @ [p]\<rparr>\<rparr>
      in w1\<lparr>cache := (cache w1)\<lparr>size' := size' (cache w1) + 1\<rparr>\<rparr>)"

fun loopBody :: "text_env \<Rightarrow> time \<Rightarrow> event \<Rightarrow> Watchdog \<Rightarrow> flow" where
  "loopBody env now SyncSignal dog = Break dog"
| "loopBody env now (TickerTime t) dog = Continue (verify env now (evict t dog))"
| "loopBody env now (PushRequest p) dog = Continue (verify env now (pushBack p dog))"

text \<open>
  The goroutine on a finite sequence of events, each with the clock reading of its
  iteration. It ends in a panic of \<^verbatim>\<open>time.NewTicker\<close>, which the library raises for a
  period that is not positive, in the \<^verbatim>\<open>break\<close> of the loop, or waiting in \<^verbatim>\<open>select\<close> for
  the next event.
\<close>

datatype routine = Panicked string | Terminated Watchdog | Waiting Watchdog

fun watchdogLoop :: "text_env \<Rightarrow> (time \<times> event) list \<Rightarrow> Watchdog \<Rightarrow> routine" where
  "watchdogLoop env [] dog = Waiting dog"
| "watchdogLoop env ((now, ev) # evs) dog =
     (case loopBody env now ev dog of
        Break dog' \<Rightarrow> Terminated dog'
      | Continue dog' \<Rightarrow> watchdogLoop env evs dog')"

definition goroutine :: "text_env \<Rightarrow> (time \<times> event) list \<Rightarrow> Watchdog \<Rightarrow> routine" where
  "goroutine env evs dog =
     (if sint (tick dog) \<le> 0 then Panicked ''non-positive interval for NewTicker''
      else watchdogLoop env evs dog)"

subsection \<open>A concrete instance of the text parameters\<close>

text \<open>
  Decimal printing, and the part of \<^verbatim>\<open>fmt.Sprintf\<close> in which \<^verbatim>\<open>%d\<close> meets an integer and
  \<^verbatim>\<open>%s\<close> meets a string; every other character of the format is copied. The function
  agrees with \<^verbatim>\<open>fmt.Sprintf\<close> on the formats whose only verbs are these two and whose
  arguments match them one by one. \<open>sample_env\<close> prints a time as its count of
  nanoseconds. The instance serves to evaluate the model on concrete inputs.
\<close>

fun show_nat :: "nat \<Rightarrow> string" where
  "show_nat n = (if n < 10 then [char_of (48 + n)] else show_nat (n div 10) @ [char_of (48 + n mod 10)])"

definition show_int :: "int \<Rightarrow> string" where
  "show_int i = (if i < 0 then CHR ''-'' # show_nat (nat (- i)) else show_nat (nat i))"

fun sprintf_ds :: "string \<Rightarrow> fmt_arg list \<Rightarrow> string" where
  "sprintf_ds [] as = []"
| "sprintf_ds [c] as = [c]"
| "sprintf_ds (c # v # fs) as =
     (if c = CHR ''%'' \<and> v = CHR ''d'' then
        (case as of
           IntArg n # r \<Rightarrow> show_int n @ sprintf_ds fs r
         | _ \<Rightarrow> c # sprintf_ds (v # fs) as)
      else if c = CHR ''%'' \<and> v = CHR ''s'' then
        (case as of
           StringArg s # r \<Rightarrow> s @ sprintf_ds fs r
         | _ \<Rightarrow> c # sprintf_ds (v # fs) as)
      else c # sprintf_ds (v # fs) as)"

definition sample_env :: text_env where
  "sample_env =
     \<lparr>defAlertFormat = ''alert: hits = %d at %s'',
      defRecoveryFormat = ''recovered at %s'',
      defTimeLayout = ''ns'',
      Sprintf = sprintf_ds,
      Format = (\<lambda>t layout. show_int t @ layout)\<rparr>"

definition sample_parameters :: Parameters where
  "sample_parameters =
     \<lparr>WatchdogBufSize = 100, AlertSpan = 120, WatchdogTick = 1, AlertThreshold = 3\<rparr>"

subsection \<open>Notions used in the statements\<close>

text \<open>The cache after the pushes of the times \<open>ts\<close>, in this order.\<close>

definition pushes :: "time list \<Rightarrow> Watchdog \<Rightarrow> Watchdog" where
  "pushes ts w = fold pushBack ts w"

text \<open>
  The counter agrees with the list: the Go comparison
  \<^verbatim>\<open>w.cache.size == uint(w.cache.list.Len())\<close>.
\<close>

definition size_inv :: "Watchdog \<Rightarrow> bool" where
  "size_inv w = (size' (cache w) = of_nat (length (list' (cache w))))"

text \<open>The messages that a run of \<^verbatim>\<open>verify\<close> from \<open>w\<close> to \<open>w'\<close> has sent.\<close>

definition emitted :: "Watchdog \<Rightarrow> Watchdog \<Rightarrow> alertMsg list" where
  "emitted w w' = drop (length (alertChan w)) (alertChan w')"

text \<open>Concrete states and configurations at which the statements are evaluated.\<close>

definition sample_alerting :: Watchdog where
  "sample_alerting =
     verify sample_env 3 (pushBack 3
       (verify sample_env 2 (pushBack 2
         (verify sample_env 1 (pushBack 1 (initialDog sample_parameters []))))))"

definition zero_threshold_parameters :: Parameters where
  "zero_threshold_parameters =
     \<lparr>WatchdogBufSize = 100, AlertSpan = 120, WatchdogTick = 1, AlertThreshold = 0\<rparr>"

definition drained_alerting :: Watchdog where
  "drained_alerting =
     evict 1000 (verify sample_env 5 (pushBack 5 (initialDog zero_threshold_parameters [])))"

definition zero_parameters :: Parameters where
  "zero_parameters =
     \<lparr>WatchdogBufSize = 100, AlertSpan = 0, WatchdogTick = 0, AlertThreshold = 0\<rparr>"

definition negative_window_parameters :: Parameters where
  "negative_window_parameters =
     \<lparr>WatchdogBufSize = 100, AlertSpan = - 1, WatchdogTick = 1, AlertThreshold = 0\<rparr>"

section \<open>Auxiliary facts\<close>

declare evict.simps [simp del]

lemma sint_word_of_int_64:
  "- (2 ^ 63) \<le> k \<Longrightarrow> k < 2 ^ 63 \<Longrightarrow> sint (word_of_int k :: 64 word) = k"
  by (simp add: sint_sbintrunc' signed_take_bit_int_eq_self)

lemma sint_Sub: "sint (Sub t u) = max minDuration (min maxDuration (t - u))"
proof -
  consider "t - u < - (2 ^ 63)" | "2 ^ 63 - 1 < t - u" | "- (2 ^ 63) \<le> t - u" "t - u < 2 ^ 63"
    by linarith
  then show ?thesis
  proof cases
    case 1
    then show ?thesis
      by (simp add: Sub_def Let_def minDuration_def maxDuration_def)
  next
    case 2
    then show ?thesis
      by (simp add: Sub_def Let_def minDuration_def maxDuration_def)
  next
    case 3
    then have "sint (word_of_int (t - u) :: 64 word) = t - u"
      by (rule sint_word_of_int_64)
    with 3 show ?thesis
      by (simp add: Sub_def Let_def minDuration_def maxDuration_def del: of_int_diff)
  qed
qed

lemma Sub_antimono: "u \<le> v \<Longrightarrow> sint (Sub t v) \<le> sint (Sub t u)"
  by (simp add: sint_Sub)

lemma Sub_le_window_exact:
  assumes "sint (window :: duration) < maxDuration"
  shows "(sint (Sub T t) \<le> sint window) = (T - t \<le> sint window)"
proof -
  have "- (2 ^ 63) \<le> sint window"
    using sint_ge [of window] by simp
  with assms show ?thesis
    unfolding sint_Sub minDuration_def maxDuration_def min_def max_def
    by (simp split: if_splits)
qed

lemma evict_eq:
  "evict now w =
     w\<lparr>cache := (cache w)
        \<lparr>list' := dropWhile (expired now (timeFrame w)) (list' (cache w)),
         size' := size' (cache w)
                  - of_nat (length (takeWhile (expired now (timeFrame w)) (list' (cache w))))\<rparr>\<rparr>"
proof (induction now w rule: evict.induct)
  case (1 now w)
  show ?case
  proof (cases "list' (cache w)")
    case Nil
    then show ?thesis by (simp add: evict.simps [of now w])
  next
    case (Cons e rest)
    show ?thesis
    proof (cases "expired now (timeFrame w) e")
      case True
      with Cons 1 show ?thesis
        by (simp add: evict.simps [of now w])
    next
      case False
      with Cons show ?thesis
        by (simp add: evict.simps [of now w])
    qed
  qed
qed

lemma evict_list:
  "list' (cache (evict now w)) = dropWhile (expired now (timeFrame w)) (list' (cache w))"
  by (subst evict_eq) simp

lemma evict_size:
  "size' (cache (evict now w)) =
     size' (cache w) - of_nat (length (takeWhile (expired now (timeFrame w)) (list' (cache w))))"
  by (subst evict_eq) simp

lemma evict_fields:
  "timeFrame (evict now w) = timeFrame w" "tick (evict now w) = tick w"
  "threshold (evict now w) = threshold w" "alertChan (evict now w) = alertChan w"
  "alert (evict now w) = alert w" "bufSize (cache (evict now w)) = bufSize (cache w)"
  by (subst evict_eq, simp)+

lemma dropWhile_expired_sorted:
  "sorted ts \<Longrightarrow> dropWhile (expired now window) ts = filter (\<lambda>t. \<not> expired now window t) ts"
proof (induction ts)
  case Nil
  then show ?case by simp
next
  case (Cons t ts)
  show ?case
  proof (cases "expired now window t")
    case True
    with Cons show ?thesis by simp
  next
    case False
    have "\<not> expired now window u" if "u \<in> set ts" for u
    proof -
      from Cons.prems that have "t \<le> u" by simp
      then have "sint (Sub now u) \<le> sint (Sub now t)" by (rule Sub_antimono)
      with False show ?thesis by (simp add: expired_def)
    qed
    then have "filter (\<lambda>t. \<not> expired now window t) ts = ts"
      by (simp add: filter_id_conv)
    with False show ?thesis by simp
  qed
qed

lemma pushBack_cache:
  "list' (cache (pushBack p w)) = list' (cache w) @ [p]"
  "size' (cache (pushBack p w)) = size' (cache w) + 1"
  "bufSize (cache (pushBack p w)) = bufSize (cache w)"
  by (simp_all add: pushBack_def Let_def)

lemma pushBack_fields:
  "timeFrame (pushBack p w) = timeFrame w" "tick (pushBack p w) = tick w"
  "threshold (pushBack p w) = threshold w" "alertChan (pushBack p w) = alertChan w"
  "alert (pushBack p w) = alert w"
  by (simp_all add: pushBack_def Let_def)

lemma pushes_list: "list' (cache (pushes ts w)) = list' (cache w) @ ts"
  unfolding pushes_def by (induction ts arbitrary: w) (simp_all add: pushBack_cache)

lemma pushes_size: "size' (cache (pushes ts w)) = size' (cache w) + of_nat (length ts)"
  unfolding pushes_def by (induction ts arbitrary: w) (simp_all add: pushBack_cache)

lemma pushes_timeFrame: "timeFrame (pushes ts w) = timeFrame w"
  unfolding pushes_def by (induction ts arbitrary: w) (simp_all add: pushBack_fields)

lemma length_takeWhile_dropWhile:
  "length (takeWhile P xs) + length (dropWhile P xs) = length xs"
  by (metis length_append takeWhile_dropWhile_id)

lemma sint_of_nat_64:
  "n < 2 ^ 63 \<Longrightarrow> sint (of_nat n :: 64 word) = int n"
proof -
  assume "n < 2 ^ 63"
  then have "int n < 2 ^ 63" by (metis of_nat_less_iff of_nat_numeral of_nat_power)
  then have "sint (word_of_int (int n) :: 64 word) = int n"
    by (intro sint_word_of_int_64) simp_all
  then show ?thesis by simp
qed

lemma size_inv_evict: "size_inv w \<Longrightarrow> size_inv (evict now w)"
proof -
  assume a: "size_inv w"
  let ?P = "expired now (timeFrame w)"
  let ?xs = "list' (cache w)"
  have "length ?xs = length (takeWhile ?P ?xs) + length (dropWhile ?P ?xs)"
    by (simp add: length_takeWhile_dropWhile)
  then have "(of_nat (length ?xs) :: 64 word)
      = of_nat (length (takeWhile ?P ?xs)) + of_nat (length (dropWhile ?P ?xs))"
    by (metis of_nat_add)
  with a show ?thesis
    by (simp add: size_inv_def evict_list evict_size)
qed

lemma size_inv_pushBack: "size_inv w \<Longrightarrow> size_inv (pushBack p w)"
  by (simp add: size_inv_def pushBack_cache)

lemma verify_cache: "cache (verify env now w) = cache w"
  by (simp add: verify_def send_def Let_def)

lemma verify_fields:
  "timeFrame (verify env now w) = timeFrame w" "tick (verify env now w) = tick w"
  "threshold (verify env now w) = threshold w"
  by (simp_all add: verify_def send_def Let_def)

lemma verify_alert:
  "alert (verify env now w) = (list' (cache w) \<noteq> [] \<and> threshold w \<le> size' (cache w))"
  by (auto simp add: verify_def send_def Let_def)

lemma size_inv_verify: "size_inv (verify env now w) = size_inv w"
  by (simp add: size_inv_def verify_cache)

lemma size_inv_initialDog: "size_inv (initialDog parameters c)"
  by (simp add: size_inv_def initialDog_def)

lemma size_inv_loopBody:
  "size_inv dog \<Longrightarrow> loopBody env now ev dog = Continue dog' \<or> loopBody env now ev dog = Break dog'
   \<Longrightarrow> size_inv dog'"
  by (cases ev) (auto simp add: size_inv_verify size_inv_evict size_inv_pushBack)

lemma NewWatchdog_Inr:
  "NewWatchdog chanCap parameters c = Inr w \<Longrightarrow> w = initialDog parameters c"
  by (simp add: NewWatchdog_def split: if_splits)

lemma size_inv_nonempty:
  "size_inv w \<Longrightarrow> 0 < threshold w \<Longrightarrow> threshold w \<le> size' (cache w) \<Longrightarrow> list' (cache w) \<noteq> []"
proof
  assume a: "size_inv w" "0 < threshold w" "threshold w \<le> size' (cache w)"
    and e: "list' (cache w) = []"
  from a(1) e have "size' (cache w) = 0" by (simp add: size_inv_def)
  with a(3) have "threshold w = 0" by simp
  with a(2) show False by simp
qed

lemma watchdogLoop_no_panic: "watchdogLoop env evs dog \<noteq> Panicked msg"
  by (induction env evs dog rule: watchdogLoop.induct) (auto split: flow.splits)


lemma evict_idem: "evict t (evict t w) = evict t w"
proof (cases "list' (cache (evict t w))")
  case Nil
  then show ?thesis by (simp add: evict.simps [of t "evict t w"])
next
  case (Cons e rest)
  then have "dropWhile (expired t (timeFrame w)) (list' (cache w)) = e # rest"
    by (simp add: evict_list)
  then have "\<not> expired t (timeFrame w) e"
    by (metis hd_dropWhile list.sel(1) list.distinct(1))
  with Cons show ?thesis
    by (simp add: evict.simps [of t "evict t w"] evict_fields)
qed

lemma evict_front_in_window:
  "(case list' (cache (evict t w)) of [] \<Rightarrow> True | e # rest \<Rightarrow> sint (Sub t e) \<le> sint (timeFrame w))"
proof (cases "list' (cache (evict t w))")
  case Nil
  then show ?thesis by simp
next
  case (Cons e rest)
  then have "dropWhile (expired t (timeFrame w)) (list' (cache w)) = e # rest"
    by (simp add: evict_list)
  then have "\<not> expired t (timeFrame w) e"
    by (metis hd_dropWhile list.sel(1) list.distinct(1))
  with Cons show ?thesis by (simp add: expired_def)
qed

section \<open>Eviction and the window\<close>

text \<open>
  Claim C1. Let the cache be built from the initial watchdog by pushing the weakly
  increasing times \<open>ts\<close>. After \<open>evict T\<close> the list holds exactly the pushed times \<open>t\<close> with
  \<open>T - t \<le> window\<close>, the difference being that of \<^verbatim>\<open>Time.Sub\<close>; these are the times left
  when the expired front elements are dropped up to the first time still within the
  window. The counter \<^verbatim>\<open>size\<close> is their number, and so is \<^verbatim>\<open>Hits\<close> as long as the number of
  pushes fits the type \<^verbatim>\<open>int\<close>. For every window below the largest duration the
  difference of \<^verbatim>\<open>Time.Sub\<close> can be read as the exact difference of the two instants.
\<close>

theorem evict_counts_pushes_in_window:
  assumes "sorted ts"
  shows "let w = evict T (pushes ts (initialDog parameters c));
             inWindow = filter (\<lambda>t. sint (Sub T t) \<le> sint (AlertSpan parameters)) ts
         in list' (cache w) = inWindow
            \<and> list' (cache w) = dropWhile (expired T (AlertSpan parameters)) ts
            \<and> size' (cache w) = of_nat (length inWindow)
            \<and> (length ts < 2 ^ 63 \<longrightarrow> Hits w = int (length inWindow))
            \<and> (sint (AlertSpan parameters) < maxDuration \<longrightarrow>
                 inWindow = filter (\<lambda>t. T - t \<le> sint (AlertSpan parameters)) ts)"
proof -
  let ?w0 = "pushes ts (initialDog parameters c)"
  let ?P = "expired T (AlertSpan parameters)"
  let ?in = "filter (\<lambda>t. sint (Sub T t) \<le> sint (AlertSpan parameters)) ts"
  have l0: "list' (cache ?w0) = ts" by (simp add: pushes_list initialDog_def)
  have s0: "size' (cache ?w0) = of_nat (length ts)" by (simp add: pushes_size initialDog_def)
  have t0: "timeFrame ?w0 = AlertSpan parameters" by (simp add: pushes_timeFrame initialDog_def)
  have inv: "size_inv (evict T ?w0)"
    by (rule size_inv_evict) (simp add: size_inv_def l0 s0)
  have d: "list' (cache (evict T ?w0)) = dropWhile ?P ts"
    by (simp add: evict_list l0 t0)
  have "filter (\<lambda>t. \<not> ?P t) ts = ?in"
    by (simp add: expired_def not_less)
  with assms have f: "dropWhile ?P ts = ?in"
    by (simp add: dropWhile_expired_sorted)
  from inv d f have s: "size' (cache (evict T ?w0)) = of_nat (length ?in)"
    by (simp add: size_inv_def)
  have h: "Hits (evict T ?w0) = int (length ?in)" if "length ts < 2 ^ 63"
  proof -
    have "length ?in \<le> length ts" by (rule length_filter_le)
    from this that have "length ?in < 2 ^ 63" by (rule le_less_trans)
    then show ?thesis by (simp add: Hits_def s sint_of_nat_64)
  qed
  have x: "?in = filter (\<lambda>t. T - t \<le> sint (AlertSpan parameters)) ts"
    if "sint (AlertSpan parameters) < maxDuration"
    using that by (simp add: Sub_le_window_exact)
  from d f s h x show ?thesis by (simp add: Let_def)
qed

theorem evict_counts_pushes_in_window_witness:
  "sorted [1, 2, 3 :: int]
   \<and> list' (cache (evict 122 (pushes [1, 2, 3] (initialDog sample_parameters [])))) = [2, 3]
   \<and> size' (cache (evict 122 (pushes [1, 2, 3] (initialDog sample_parameters [])))) = 2
   \<and> Hits (evict 122 (pushes [1, 2, 3] (initialDog sample_parameters []))) = 2
   \<and> sint (AlertSpan sample_parameters) < maxDuration
   \<and> filter (\<lambda>t. 122 - t \<le> sint (AlertSpan sample_parameters)) [1, 2, 3] = [2, 3]"
proof -
  have h: "sorted [1, 2, 3 :: int]" by simp
  show ?thesis
    using h evict_counts_pushes_in_window [OF h, of 122 sample_parameters "[]"]
    by (simp add: Let_def sample_parameters_def sint_Sub minDuration_def maxDuration_def)
qed

section \<open>The transition check\<close>

text \<open>
  Claim C2. In a state whose alert flag is false and whose cache is not empty and has
  \<open>size \<ge> threshold\<close>, \<open>verify\<close> sets the flag and sends exactly one message. The message
  is not a recovery, and its body is the alert format filled with the current hit count
  and the formatted time of the check.
\<close>

theorem verify_raises_alert:
  assumes "\<not> alert w" and "list' (cache w) \<noteq> []" and "threshold w \<le> size' (cache w)"
  shows "verify env now w =
           w\<lparr>alert := True,
             alertChan := alertChan w @
               [\<lparr>recovery = False,
                 body = Sprintf env (defAlertFormat env)
                          [IntArg (Hits w), StringArg (Format env now (defTimeLayout env))],
                 timestamp = zero_time\<rparr>]\<rparr>"
  using assms by (simp add: verify_def send_def buildAlertMsg_def Hits_def Let_def)

theorem verify_raises_alert_witness:
  "\<not> alert (pushes [1, 2, 3] (initialDog sample_parameters []))
   \<and> list' (cache (pushes [1, 2, 3] (initialDog sample_parameters []))) \<noteq> []
   \<and> threshold (pushes [1, 2, 3] (initialDog sample_parameters []))
       \<le> size' (cache (pushes [1, 2, 3] (initialDog sample_parameters [])))
   \<and> alert (verify sample_env 7 (pushes [1, 2, 3] (initialDog sample_parameters [])))
   \<and> alertChan (verify sample_env 7 (pushes [1, 2, 3] (initialDog sample_parameters [])))
       = [\<lparr>recovery = False, body = ''alert: hits = 3 at 7ns'', timestamp = 0\<rparr>]"
proof -
  let ?w = "pushes [1, 2, 3] (initialDog sample_parameters [])"
  have h1: "\<not> alert ?w"
    by (simp add: pushes_def pushBack_def initialDog_def sample_parameters_def)
  have h2: "list' (cache ?w) \<noteq> []"
    by (simp add: pushes_def pushBack_def initialDog_def sample_parameters_def)
  have h3: "threshold ?w \<le> size' (cache ?w)"
    by (simp add: pushes_def pushBack_def initialDog_def sample_parameters_def)
  have fmt: "Sprintf sample_env (defAlertFormat sample_env)
               [IntArg 3, StringArg (Format sample_env 7 (defTimeLayout sample_env))]
             = ''alert: hits = 3 at 7ns''"
    by code_simp
  show ?thesis
    using h1 h2 h3 verify_raises_alert [OF h1 h2 h3, of sample_env 7]
    by (simp add: Hits_def fmt zero_time_def
        pushes_def pushBack_def initialDog_def sample_parameters_def)
qed

text \<open>
  Claim C3. In a state whose alert flag is true and whose cache is empty or has
  \<open>size < threshold\<close>, \<open>verify\<close> clears the flag and sends exactly one message. The message
  is a recovery, and its body is the recovery format filled with the formatted time of the
  check alone: no hit count is among the arguments.
\<close>

theorem verify_recovers:
  assumes "alert w" and "list' (cache w) = [] \<or> size' (cache w) < threshold w"
  shows "verify env now w =
           w\<lparr>alert := False,
             alertChan := alertChan w @
               [\<lparr>recovery = True,
                 body = Sprintf env (defRecoveryFormat env)
                          [StringArg (Format env now (defTimeLayout env))],
                 timestamp = zero_time\<rparr>]\<rparr>"
  using assms by (auto simp add: verify_def send_def buildAlertMsg_def Let_def not_le)

theorem verify_recovers_witness:
  "alert ((pushes [1, 2] (initialDog sample_parameters []))\<lparr>alert := True\<rparr>)
   \<and> size' (cache ((pushes [1, 2] (initialDog sample_parameters []))\<lparr>alert := True\<rparr>))
       < threshold ((pushes [1, 2] (initialDog sample_parameters []))\<lparr>alert := True\<rparr>)
   \<and> \<not> alert (verify sample_env 9 ((pushes [1, 2] (initialDog sample_parameters []))\<lparr>alert := True\<rparr>))
   \<and> alertChan (verify sample_env 9 ((pushes [1, 2] (initialDog sample_parameters []))\<lparr>alert := True\<rparr>))
       = [\<lparr>recovery = True, body = ''recovered at 9ns'', timestamp = 0\<rparr>]"
proof -
  let ?w = "(pushes [1, 2] (initialDog sample_parameters []))\<lparr>alert := True\<rparr>"
  have h1: "alert ?w" by simp
  have h2: "size' (cache ?w) < threshold ?w"
    by (simp add: pushes_def pushBack_def initialDog_def sample_parameters_def)
  then have h3: "list' (cache ?w) = [] \<or> size' (cache ?w) < threshold ?w" ..
  have fmt: "Sprintf sample_env (defRecoveryFormat sample_env)
               [StringArg (Format sample_env 9 (defTimeLayout sample_env))]
             = ''recovered at 9ns''"
    by code_simp
  show ?thesis
    using h1 h2 verify_recovers [OF h1 h3, of sample_env 9]
    by (simp add: fmt zero_time_def
        pushes_def pushBack_def initialDog_def sample_parameters_def)
qed

text \<open>
  Claim C4, as the specification states it: whenever the alert flag already agrees with the
  threshold comparison, in particular when the flag is true and \<open>size \<ge> threshold\<close>,
  \<open>verify\<close> changes nothing and sends nothing. The code tests the empty list first. With
  threshold 0, a push raises the alert and a later tick evicts the hit; the transition
  check of that tick finds the flag true and \<open>size = 0 \<ge> threshold\<close>, and it clears the flag
  and sends a recovery.
\<close>

theorem verify_noop_when_agreeing_counterexample:
  "watchdogLoop sample_env [(5, PushRequest 5), (1001, TickerTime 1000)]
       (initialDog zero_threshold_parameters [])
     = Waiting (verify sample_env 1001 drained_alerting)
   \<and> alert drained_alerting
   \<and> threshold drained_alerting \<le> size' (cache drained_alerting)
   \<and> alert (verify sample_env 1001 drained_alerting) = False
   \<and> emitted drained_alerting (verify sample_env 1001 drained_alerting)
       = [\<lparr>recovery = True, body = ''recovered at 1001ns'', timestamp = 0\<rparr>]"
  by code_simp

text \<open>
  Claim C4, amended. In every state, one run of \<open>verify\<close> sends at most one message, sends
  one exactly when it flips the alert flag, and leaves the cache as it is. The state is
  unchanged and nothing is sent when the flag is false and \<open>size < threshold\<close>, and when
  the flag is true, the list is not empty and \<open>size \<ge> threshold\<close>. The list is not empty
  whenever the counter agrees with the list, the threshold is positive and
  \<open>size \<ge> threshold\<close>.
\<close>

theorem verify_message_iff_flip:
  "let w' = verify env now w
   in length (emitted w w') \<le> 1
      \<and> alertChan w' = alertChan w @ emitted w w'
      \<and> (emitted w w' \<noteq> []) = (alert w' \<noteq> alert w)
      \<and> cache w' = cache w
      \<and> (\<not> alert w \<and> size' (cache w) < threshold w \<longrightarrow> w' = w \<and> emitted w w' = [])
      \<and> (alert w \<and> list' (cache w) \<noteq> [] \<and> threshold w \<le> size' (cache w)
           \<longrightarrow> w' = w \<and> emitted w w' = [])
      \<and> (alert w \<and> size_inv w \<and> 0 < threshold w \<and> threshold w \<le> size' (cache w)
           \<longrightarrow> w' = w \<and> emitted w w' = [])"
proof -
  have a: "length (emitted w (verify env now w)) \<le> 1"
    by (simp add: verify_def send_def emitted_def Let_def)
  have b: "alertChan (verify env now w) = alertChan w @ emitted w (verify env now w)"
    by (simp add: verify_def send_def emitted_def Let_def)
  have c: "(emitted w (verify env now w) \<noteq> []) = (alert (verify env now w) \<noteq> alert w)"
    by (simp add: verify_def send_def emitted_def Let_def)
  have e: "cache (verify env now w) = cache w"
    by (rule verify_cache)
  have f: "verify env now w = w \<and> emitted w (verify env now w) = []"
    if "\<not> alert w" "size' (cache w) < threshold w"
  proof -
    from that(2) have "\<not> threshold w \<le> size' (cache w)" by simp
    with that(1) show ?thesis
      by (simp add: verify_def emitted_def)
  qed
  have g: "verify env now w = w \<and> emitted w (verify env now w) = []"
    if "alert w" "list' (cache w) \<noteq> []" "threshold w \<le> size' (cache w)"
    using that by (simp add: verify_def emitted_def)
  have h: "verify env now w = w \<and> emitted w (verify env now w) = []"
    if "alert w" "size_inv w" "0 < threshold w" "threshold w \<le> size' (cache w)"
  proof -
    from that(2,3,4) have ne: "list' (cache w) \<noteq> []" by (rule size_inv_nonempty)
    from that(1) ne that(4) show ?thesis by (rule g)
  qed
  show ?thesis
    unfolding Let_def using a b c e f g h by blast
qed

theorem verify_message_iff_flip_witness:
  "alert sample_alerting
   \<and> list' (cache sample_alerting) \<noteq> []
   \<and> size_inv sample_alerting
   \<and> 0 < threshold sample_alerting
   \<and> threshold sample_alerting \<le> size' (cache sample_alerting)
   \<and> verify sample_env 4 sample_alerting = sample_alerting
   \<and> emitted sample_alerting (verify sample_env 4 sample_alerting) = []
   \<and> \<not> alert (initialDog sample_parameters [])
   \<and> size' (cache (initialDog sample_parameters [])) < threshold (initialDog sample_parameters [])
   \<and> verify sample_env 4 (initialDog sample_parameters []) = initialDog sample_parameters []"
proof -
  let ?d0 = "initialDog sample_parameters []"
  have a: "alert sample_alerting"
    by (simp add: sample_alerting_def verify_alert pushBack_cache pushBack_fields verify_cache
        verify_fields initialDog_def sample_parameters_def)
  have ne: "list' (cache sample_alerting) \<noteq> []"
    by (simp add: sample_alerting_def pushBack_cache verify_cache)
  have i: "size_inv sample_alerting"
    by (simp add: sample_alerting_def size_inv_def pushBack_cache verify_cache initialDog_def)
  have p: "0 < threshold sample_alerting"
    by (simp add: sample_alerting_def pushBack_fields verify_fields initialDog_def
        sample_parameters_def)
  have t: "threshold sample_alerting \<le> size' (cache sample_alerting)"
    by (simp add: sample_alerting_def verify_alert pushBack_cache pushBack_fields verify_cache
        verify_fields initialDog_def sample_parameters_def)
  have n: "\<not> alert ?d0" by (simp add: initialDog_def)
  have l: "size' (cache ?d0) < threshold ?d0"
    by (simp add: initialDog_def sample_parameters_def)
  from a ne t verify_message_iff_flip [where w = sample_alerting and env = sample_env and now = 4]
  have u: "verify sample_env 4 sample_alerting = sample_alerting
           \<and> emitted sample_alerting (verify sample_env 4 sample_alerting) = []"
    unfolding Let_def by blast
  from n l verify_message_iff_flip [where w = ?d0 and env = sample_env and now = 4]
  have v: "verify sample_env 4 ?d0 = ?d0"
    unfolding Let_def by blast
  from a ne i p t u n l v show ?thesis by blast
qed

section \<open>The command loop\<close>

text \<open>
  Claim C5. The counter \<^verbatim>\<open>size\<close> equals the length of the list in the initial state, and
  every step of the command loop preserves this. A push appends one element and adds one
  to the counter, an eviction subtracts from the counter the number of elements it removes,
  and the transition check leaves the cache alone. Hence \<^verbatim>\<open>Hits\<close> returns the number of
  elements, as long as that number fits the type \<^verbatim>\<open>int\<close>.
\<close>

theorem size_counter_invariant:
  "size_inv (initialDog parameters c)
   \<and> (size_inv dog \<and> (loopBody env now ev dog = Continue dog' \<or> loopBody env now ev dog = Break dog')
        \<longrightarrow> size_inv dog')
   \<and> list' (cache (pushBack p dog)) = list' (cache dog) @ [p]
   \<and> size' (cache (pushBack p dog)) = size' (cache dog) + 1
   \<and> size' (cache (evict t dog))
       = size' (cache dog) - of_nat (length (list' (cache dog)) - length (list' (cache (evict t dog))))
   \<and> cache (verify env now dog) = cache dog
   \<and> (size_inv dog \<and> length (list' (cache dog)) < 2 ^ 63
        \<longrightarrow> Hits dog = int (length (list' (cache dog))))"
proof -
  let ?P = "expired t (timeFrame dog)"
  let ?xs = "list' (cache dog)"
  have "length (takeWhile ?P ?xs) = length ?xs - length (dropWhile ?P ?xs)"
    using length_takeWhile_dropWhile [of ?P ?xs] by simp
  then have e: "size' (cache (evict t dog))
       = size' (cache dog) - of_nat (length ?xs - length (list' (cache (evict t dog))))"
    by (simp add: evict_size evict_list)
  have s: "size_inv dog'"
    if "size_inv dog" "loopBody env now ev dog = Continue dog' \<or> loopBody env now ev dog = Break dog'"
    using that by (rule size_inv_loopBody)
  have h: "Hits dog = int (length ?xs)" if "size_inv dog" "length ?xs < 2 ^ 63"
    using that by (simp add: Hits_def size_inv_def sint_of_nat_64)
  show ?thesis
    using e s h size_inv_initialDog [of parameters c] pushBack_cache(1,2) [of p dog]
      verify_cache [of env now dog]
    by blast
qed

theorem size_counter_invariant_witness:
  "size_inv (pushes [1, 2, 3] (initialDog sample_parameters []))
   \<and> loopBody sample_env 5 (TickerTime 122) (pushes [1, 2, 3] (initialDog sample_parameters []))
       = Continue (verify sample_env 5 (evict 122 (pushes [1, 2, 3] (initialDog sample_parameters []))))
   \<and> size_inv (verify sample_env 5 (evict 122 (pushes [1, 2, 3] (initialDog sample_parameters []))))
   \<and> length (list' (cache (pushes [1, 2, 3] (initialDog sample_parameters [])))) < 2 ^ 63
   \<and> Hits (pushes [1, 2, 3] (initialDog sample_parameters [])) = 3"
proof -
  let ?d = "pushes [1, 2, 3] (initialDog sample_parameters [])"
  let ?d' = "verify sample_env 5 (evict 122 ?d)"
  have i: "size_inv ?d"
    by (simp add: size_inv_def pushes_def pushBack_def initialDog_def)
  have l: "loopBody sample_env 5 (TickerTime 122) ?d = Continue ?d'" by simp
  have n: "length (list' (cache ?d)) < 2 ^ 63"
    by (simp add: pushes_def pushBack_def initialDog_def)
  have n': "int (length (list' (cache ?d))) = 3"
    by (simp add: pushes_def pushBack_def initialDog_def)
  show ?thesis
    using i l n n'
      size_counter_invariant [of sample_parameters "[]" ?d sample_env 5 "TickerTime 122" ?d' 0 0]
    by simp
qed

text \<open>
  Claim C6. A tick step is the transition check applied to the state after the eviction,
  and that eviction is complete: evicting again changes nothing, and the front element, if
  there is one, is within the window. The flag after the step is the comparison made on
  the evicted cache. A push step is the transition check applied to the state with the
  pushed time appended and the counter incremented; the flag after the step is the
  comparison with the incremented counter, and an alert raised by the step reports the
  incremented count.
\<close>

theorem tick_evicts_first_push_appends_first:
  "loopBody env now (TickerTime t) dog = Continue (verify env now (evict t dog))
   \<and> evict t (evict t dog) = evict t dog
   \<and> (case list' (cache (evict t dog)) of
         [] \<Rightarrow> True
       | e # rest \<Rightarrow> sint (Sub t e) \<le> sint (timeFrame dog))
   \<and> cache (verify env now (evict t dog)) = cache (evict t dog)
   \<and> alert (verify env now (evict t dog))
       = (list' (cache (evict t dog)) \<noteq> [] \<and> threshold dog \<le> size' (cache (evict t dog)))
   \<and> loopBody env now (PushRequest p) dog = Continue (verify env now (pushBack p dog))
   \<and> cache (verify env now (pushBack p dog))
       = (cache dog)\<lparr>list' := list' (cache dog) @ [p], size' := size' (cache dog) + 1\<rparr>
   \<and> alert (verify env now (pushBack p dog)) = (threshold dog \<le> size' (cache dog) + 1)
   \<and> (\<not> alert dog \<and> threshold dog \<le> size' (cache dog) + 1 \<longrightarrow>
        emitted dog (verify env now (pushBack p dog))
        = [\<lparr>recovery = False,
            body = Sprintf env (defAlertFormat env)
                     [IntArg (sint (size' (cache dog) + 1)),
                      StringArg (Format env now (defTimeLayout env))],
            timestamp = zero_time\<rparr>])"
proof -
  have a: "alert (verify env now (evict t dog))
       = (list' (cache (evict t dog)) \<noteq> [] \<and> threshold dog \<le> size' (cache (evict t dog)))"
    by (simp add: verify_alert evict_fields)
  have b: "cache (verify env now (pushBack p dog))
       = (cache dog)\<lparr>list' := list' (cache dog) @ [p], size' := size' (cache dog) + 1\<rparr>"
    by (simp add: verify_cache pushBack_def Let_def)
  have c: "alert (verify env now (pushBack p dog)) = (threshold dog \<le> size' (cache dog) + 1)"
    by (simp add: verify_alert pushBack_cache pushBack_fields)
  have d: "emitted dog (verify env now (pushBack p dog))
        = [\<lparr>recovery = False,
            body = Sprintf env (defAlertFormat env)
                     [IntArg (sint (size' (cache dog) + 1)),
                      StringArg (Format env now (defTimeLayout env))],
            timestamp = zero_time\<rparr>]"
    if "\<not> alert dog" "threshold dog \<le> size' (cache dog) + 1"
    using that
    by (simp add: verify_def send_def buildAlertMsg_def Hits_def emitted_def
        pushBack_cache pushBack_fields Let_def)
  show ?thesis
    using a b c d evict_idem [of t dog] evict_front_in_window [of t dog]
      verify_cache [of env now "evict t dog"]
    by simp
qed

theorem tick_evicts_first_push_appends_first_witness:
  "\<not> alert (pushes [1, 2] (initialDog sample_parameters []))
   \<and> threshold (pushes [1, 2] (initialDog sample_parameters []))
       \<le> size' (cache (pushes [1, 2] (initialDog sample_parameters []))) + 1
   \<and> emitted (pushes [1, 2] (initialDog sample_parameters []))
        (verify sample_env 8 (pushBack 3 (pushes [1, 2] (initialDog sample_parameters []))))
       = [\<lparr>recovery = False, body = ''alert: hits = 3 at 8ns'', timestamp = 0\<rparr>]"
proof -
  let ?d = "pushes [1, 2] (initialDog sample_parameters [])"
  have h1: "\<not> alert ?d"
    by (simp add: pushes_def pushBack_def initialDog_def sample_parameters_def)
  have h2: "threshold ?d \<le> size' (cache ?d) + 1"
    by (simp add: pushes_def pushBack_def initialDog_def sample_parameters_def)
  have s: "sint (size' (cache ?d) + 1) = 3"
    by (simp add: pushes_def pushBack_def initialDog_def sample_parameters_def)
  have fmt: "Sprintf sample_env (defAlertFormat sample_env)
               [IntArg 3, StringArg (Format sample_env 8 (defTimeLayout sample_env))]
             = ''alert: hits = 3 at 8ns''"
    by code_simp
  from tick_evicts_first_push_appends_first [of sample_env 8 0 ?d 3] h1 h2
  have "emitted ?d (verify sample_env 8 (pushBack 3 ?d))
        = [\<lparr>recovery = False,
            body = Sprintf sample_env (defAlertFormat sample_env)
                     [IntArg (sint (size' (cache ?d) + 1)),
                      StringArg (Format sample_env 8 (defTimeLayout sample_env))],
            timestamp = zero_time\<rparr>]"
    by blast
  with h1 h2 show ?thesis
    by (simp only: s fmt zero_time_def simp_thms)
qed

text \<open>
  Claim C7. The step for the shutdown signal breaks the loop with the watchdog as it was:
  the cache, the alert flag and the messages sent are unchanged, also when the alert flag
  is set, and no later event is processed.
\<close>

theorem shutdown_breaks_without_message:
  "loopBody env now SyncSignal dog = Break dog
   \<and> watchdogLoop env ((now, SyncSignal) # evs) dog = Terminated dog
   \<and> watchdogLoop env ((now, SyncSignal) # evs) (dog\<lparr>alert := True\<rparr>) = Terminated (dog\<lparr>alert := True\<rparr>)"
  by simp

section \<open>Construction\<close>

text \<open>
  Claim C8, as the specification states it: a configuration with a zero or negative window,
  threshold or tick period is rejected when the engine is constructed. The code does not
  do this. For the configuration of zeros \<open>NewWatchdog\<close> returns a watchdog that holds the
  zeros, and the failure is the panic of the ticker in the goroutine, after construction.
  With a negative window, a zero threshold and a positive tick period \<open>NewWatchdog\<close>
  returns as well and the engine runs: the first push raises an alert and the next tick
  evicts the hit and recovers.
\<close>

theorem construction_rejects_bad_configuration_counterexample:
  "NewWatchdog 1000 zero_parameters []
     = Inr \<lparr>cache = \<lparr>bufSize = 100, list' = [], size' = 0\<rparr>,
            timeFrame = 0, tick = 0, threshold = 0, alertChan = [], alert = False\<rparr>
   \<and> goroutine sample_env []
         \<lparr>cache = \<lparr>bufSize = 100, list' = [], size' = 0\<rparr>,
          timeFrame = 0, tick = 0, threshold = 0, alertChan = [], alert = False\<rparr>
       = Panicked ''non-positive interval for NewTicker''
   \<and> NewWatchdog 1000 negative_window_parameters []
       = Inr \<lparr>cache = \<lparr>bufSize = 100, list' = [], size' = 0\<rparr>,
              timeFrame = - 1, tick = 1, threshold = 0, alertChan = [], alert = False\<rparr>
   \<and> goroutine sample_env [(5, PushRequest 5), (6, TickerTime 7)]
         \<lparr>cache = \<lparr>bufSize = 100, list' = [], size' = 0\<rparr>,
          timeFrame = - 1, tick = 1, threshold = 0, alertChan = [], alert = False\<rparr>
       = Waiting
           \<lparr>cache = \<lparr>bufSize = 100, list' = [], size' = 0\<rparr>,
            timeFrame = - 1, tick = 1, threshold = 0,
            alertChan = [\<lparr>recovery = False, body = ''alert: hits = 1 at 5ns'', timestamp = 0\<rparr>,
                         \<lparr>recovery = True, body = ''recovered at 6ns'', timestamp = 0\<rparr>],
            alert = False\<rparr>"
  by code_simp

text \<open>
  Claim C8, amended. Construction checks none of window, threshold and tick period.
  Whether \<open>NewWatchdog\<close> returns is decided by the size of the push buffer alone: it
  panics exactly when the making of the push channel does, whatever the window, the
  threshold and the tick period are. For every configuration whose buffer size is
  accepted, also one with a zero or negative window, threshold or tick period, it returns
  a watchdog that holds the configured window, tick period and threshold as they are,
  with an empty cache and the alert flag false. The goroutine of the returned watchdog
  panics, after construction, exactly when the tick period is zero or negative; a zero or
  negative window and a zero threshold are never rejected.
\<close>

theorem NewWatchdog_validates_nothing:
  "isl (NewWatchdog chanCap (parameters\<lparr>AlertSpan := a, WatchdogTick := k, AlertThreshold := h\<rparr>) c)
     = isl (NewWatchdog chanCap parameters c)
   \<and> (NewWatchdog chanCap parameters c = Inl ''makechan: size out of range'')
       = (sint (WatchdogBufSize parameters) < 0 \<or> chanCap < unat (WatchdogBufSize parameters))
   \<and> (0 \<le> sint (WatchdogBufSize parameters) \<and> unat (WatchdogBufSize parameters) \<le> chanCap
        \<longrightarrow> NewWatchdog chanCap parameters c
             = Inr \<lparr>cache = \<lparr>bufSize = WatchdogBufSize parameters, list' = [], size' = 0\<rparr>,
                    timeFrame = AlertSpan parameters,
                    tick = WatchdogTick parameters,
                    threshold = AlertThreshold parameters,
                    alertChan = c,
                    alert = False\<rparr>)
   \<and> (NewWatchdog chanCap parameters c = Inr w
        \<longrightarrow> (goroutine env evs w = Panicked ''non-positive interval for NewTicker'')
              = (sint (WatchdogTick parameters) \<le> 0)
            \<and> (\<exists>msg. goroutine env evs w = Panicked msg) = (sint (WatchdogTick parameters) \<le> 0))"
proof -
  have a: "isl (NewWatchdog chanCap (parameters\<lparr>AlertSpan := a, WatchdogTick := k, AlertThreshold := h\<rparr>) c)
     = isl (NewWatchdog chanCap parameters c)"
    by (simp add: NewWatchdog_def)
  have b: "(NewWatchdog chanCap parameters c = Inl ''makechan: size out of range'')
       = (sint (WatchdogBufSize parameters) < 0 \<or> chanCap < unat (WatchdogBufSize parameters))"
    by (simp add: NewWatchdog_def makeChanPanics_def)
  have c: "NewWatchdog chanCap parameters c
             = Inr \<lparr>cache = \<lparr>bufSize = WatchdogBufSize parameters, list' = [], size' = 0\<rparr>,
                    timeFrame = AlertSpan parameters,
                    tick = WatchdogTick parameters,
                    threshold = AlertThreshold parameters,
                    alertChan = c,
                    alert = False\<rparr>"
    if "0 \<le> sint (WatchdogBufSize parameters)" "unat (WatchdogBufSize parameters) \<le> chanCap"
    using that by (simp add: NewWatchdog_def makeChanPanics_def initialDog_def not_less)
  have d: "(goroutine env evs w = Panicked ''non-positive interval for NewTicker'')
              = (sint (WatchdogTick parameters) \<le> 0)
            \<and> (\<exists>msg. goroutine env evs w = Panicked msg) = (sint (WatchdogTick parameters) \<le> 0)"
    if "NewWatchdog chanCap parameters c = Inr w"
  proof -
    from that have "w = initialDog parameters c" by (rule NewWatchdog_Inr)
    then show ?thesis
      by (simp add: initialDog_def goroutine_def watchdogLoop_no_panic)
  qed
  from a b c d show ?thesis by blast
qed

theorem NewWatchdog_validates_nothing_witness:
  "0 \<le> sint (WatchdogBufSize zero_parameters)
   \<and> unat (WatchdogBufSize zero_parameters) \<le> 1000
   \<and> NewWatchdog 1000 zero_parameters [] = Inr (initialDog zero_parameters [])
   \<and> sint (WatchdogTick zero_parameters) \<le> 0
   \<and> goroutine sample_env [] (initialDog zero_parameters [])
       = Panicked ''non-positive interval for NewTicker''"
proof -
  have h1: "0 \<le> sint (WatchdogBufSize zero_parameters)"
    by (simp add: zero_parameters_def)
  have h2: "unat (WatchdogBufSize zero_parameters) \<le> 1000"
    by (simp add: zero_parameters_def)
  have h3: "sint (WatchdogTick zero_parameters) \<le> 0"
    by (simp add: zero_parameters_def)
  from h1 h2 NewWatchdog_validates_nothing [where chanCap = 1000 and parameters = zero_parameters and c = "[]"]
  have r: "NewWatchdog 1000 zero_parameters [] = Inr (initialDog zero_parameters [])"
    by (simp add: initialDog_def)
  from r h3
    NewWatchdog_validates_nothing
      [where chanCap = 1000 and parameters = zero_parameters and c = "[]"
         and w = "initialDog zero_parameters []" and env = sample_env and evs = "[]"]
  have g: "goroutine sample_env [] (initialDog zero_parameters [])
       = Panicked ''non-positive interval for NewTicker''"
    by blast
  from h1 h2 r h3 g show ?thesis by blast
qed

section \<open>Messages\<close>

text \<open>
  Claim C9. The message built by \<open>buildAlertMsg\<close> has the zero time in its timestamp field,
  whatever the time \<open>t\<close>, the state and the kind of message. The time \<open>t\<close> enters the message
  only through its formatted text, an argument of the body's format.
\<close>

theorem buildAlertMsg_timestamp_zero:
  "timestamp (buildAlertMsg env w rec t) = zero_time
   \<and> timestamp (buildAlertMsg env w rec t) = timestamp (buildAlertMsg env' w' rec' t')
   \<and> recovery (buildAlertMsg env w rec t) = rec
   \<and> body (buildAlertMsg env w rec t)
       = (if rec then Sprintf env (defRecoveryFormat env)
                        [StringArg (Format env t (defTimeLayout env))]
          else Sprintf env (defAlertFormat env)
                 [IntArg (Hits w), StringArg (Format env t (defTimeLayout env))])"
  by (simp add: buildAlertMsg_def Let_def)

section \<open>Eviction on arbitrary contents\<close>

text \<open>
  Claim C10. For every content of the list, sorted or not, \<open>evict\<close> removes a prefix of the
  list, every removed element is older than the window, and the removal stops at the first
  element within the window: that element and everything behind it is kept, whatever the
  age of the elements behind it.
\<close>

theorem evict_removes_expired_prefix_only:
  "list' (cache (evict now w)) = dropWhile (expired now (timeFrame w)) (list' (cache w))
   \<and> list' (cache w)
       = takeWhile (expired now (timeFrame w)) (list' (cache w)) @ list' (cache (evict now w))
   \<and> (\<forall>e \<in> set (takeWhile (expired now (timeFrame w)) (list' (cache w))).
         sint (timeFrame w) < sint (Sub now e))
   \<and> (\<forall>old e rest.
         list' (cache w) = old @ e # rest
         \<and> (\<forall>x \<in> set old. sint (timeFrame w) < sint (Sub now x))
         \<and> sint (Sub now e) \<le> sint (timeFrame w)
         \<longrightarrow> list' (cache (evict now w)) = e # rest)"
proof -
  let ?P = "expired now (timeFrame w)"
  have a: "\<forall>e \<in> set (takeWhile ?P (list' (cache w))). sint (timeFrame w) < sint (Sub now e)"
    by (metis expired_def set_takeWhileD)
  have b: "list' (cache (evict now w)) = e # rest"
    if "list' (cache w) = old @ e # rest"
      "\<forall>x \<in> set old. sint (timeFrame w) < sint (Sub now x)"
      "sint (Sub now e) \<le> sint (timeFrame w)" for old e rest
  proof -
    from that(2) have "\<forall>x \<in> set old. ?P x" by (simp add: expired_def)
    moreover from that(3) have "\<not> ?P e" by (simp add: expired_def)
    ultimately have "dropWhile ?P (old @ e # rest) = e # rest"
      by (simp add: dropWhile_append3)
    with that(1) show ?thesis by (simp add: evict_list)
  qed
  show ?thesis
    using a b by (simp add: evict_list)
qed

theorem evict_removes_expired_prefix_only_witness:
  "list' (cache ((pushes [100, 950, 200] (initialDog sample_parameters [])))) = [100] @ 950 # [200]
   \<and> sint (timeFrame (pushes [100, 950, 200] (initialDog sample_parameters []))) < sint (Sub 1000 100)
   \<and> sint (Sub 1000 950) \<le> sint (timeFrame (pushes [100, 950, 200] (initialDog sample_parameters [])))
   \<and> sint (timeFrame (pushes [100, 950, 200] (initialDog sample_parameters []))) < sint (Sub 1000 200)
   \<and> list' (cache (evict 1000 (pushes [100, 950, 200] (initialDog sample_parameters [])))) = [950, 200]"
proof -
  let ?w = "pushes [100, 950, 200] (initialDog sample_parameters [])"
  have l: "list' (cache ?w) = [100] @ 950 # [200]"
    by (simp add: pushes_def pushBack_def initialDog_def)
  have t: "timeFrame ?w = 120"
    by (simp add: pushes_def pushBack_def initialDog_def sample_parameters_def)
  have o: "\<forall>x \<in> set [100 :: int]. sint (timeFrame ?w) < sint (Sub 1000 x)"
    by (simp add: t sint_Sub minDuration_def maxDuration_def)
  have i: "sint (Sub 1000 950) \<le> sint (timeFrame ?w)"
    by (simp add: t sint_Sub minDuration_def maxDuration_def)
  have x: "sint (timeFrame ?w) < sint (Sub 1000 200)"
    by (simp add: t sint_Sub minDuration_def maxDuration_def)
  from evict_removes_expired_prefix_only [of 1000 ?w] l o i
  have "list' (cache (evict 1000 ?w)) = 950 # [200]" by blast
  with l o i x show ?thesis by simp
qed

end
